theory Spec2Isabelle
  imports Main
begin

section \<open>Errors, requests and responses\<close>

text \<open>
  Go \<open>error\<close> values are modelled by their message. A function returning \<open>(T, error)\<close>
  returns \<open>err + T\<close> (\<open>Inl\<close> the error); a function returning only \<open>error\<close>
  returns \<open>err option\<close> (\<open>None\<close> is \<open>nil\<close>). Go strings and byte slices are
  \<open>string\<close>s: lists of 8-bit characters.
\<close>

type_synonym err = string

text \<open>
  A request after routing: the router's URL parameters (\<open>chi.URLParam\<close>) and the parsed
  query string (\<open>req.URL.Query()\<close>), both in order of appearance.
\<close>

record Request =
  URLParams :: "(string \<times> string) list"
  Query :: "(string \<times> string) list"

definition chi_URLParam :: "Request \<Rightarrow> string \<Rightarrow> string" where
  \<comment> \<open>\<open>chi.URLParam(req, key)\<close>: the empty string when the route has no such parameter.\<close>
  "chi_URLParam req key = (case map_of (URLParams req) key of None \<Rightarrow> [] | Some v \<Rightarrow> v)"

definition Values_Get :: "(string \<times> string) list \<Rightarrow> string \<Rightarrow> string" where
  \<comment> \<open>\<open>url.Values.Get\<close>: the first value of the key, the empty string when there is none.\<close>
  "Values_Get vs key = (case map_of vs key of None \<Rightarrow> [] | Some v \<Rightarrow> v)"

text \<open>
  An \<open>http.ResponseWriter\<close>: the header map, the status line (\<open>None\<close> until it is
  written; the first \<open>WriteHeader\<close> wins, and a body write commits status 200), and the body.
\<close>

record Response =
  Header :: "string \<Rightarrow> string list"
  Status :: "nat option"
  Body :: string

definition Header_Set :: "string \<Rightarrow> string \<Rightarrow> Response \<Rightarrow> Response" where
  "Header_Set k v res = res\<lparr>Header := (Header res)(k := [v])\<rparr>"

definition Header_Add :: "string \<Rightarrow> string \<Rightarrow> Response \<Rightarrow> Response" where
  "Header_Add k v res = res\<lparr>Header := (Header res)(k := Header res k @ [v])\<rparr>"

definition WriteHeader :: "nat \<Rightarrow> Response \<Rightarrow> Response" where
  "WriteHeader code res = (if Status res = None then res\<lparr>Status := Some code\<rparr> else res)"

definition Write :: "string \<Rightarrow> Response \<Rightarrow> Response" where
  "Write bs res = (let r = WriteHeader 200 res in r\<lparr>Body := Body r @ bs\<rparr>)"

definition StatusTemporaryRedirect :: nat where
  "StatusTemporaryRedirect = 307"

definition StatusBadRequest :: nat where
  "StatusBadRequest = 400"

section \<open>The session store\<close>

text \<open>
  The session manager (\<open>scs\<close>) is an external collaborator. It is modelled by its contract:
  the session of the request's browser is a table from keys to typed values; a session that
  could not be loaded answers every call with its load error; a store that cannot save
  answers every write with its save error and keeps the table it had; a successful write
  sends the session cookie again. A key that is not in the table reads as the zero value.
\<close>

datatype SVal = VString string | VBytes string

record Session =
  data :: "string \<Rightarrow> SVal option"
  loadErr :: "err option"
  saveErr :: "err option"
  token :: string

definition ErrTypeAssertionFailed :: err where
  "ErrTypeAssertionFailed = ''type assertion failed''"

definition Session_GetString :: "Session \<Rightarrow> string \<Rightarrow> err + string" where
  "Session_GetString s key =
     (case loadErr s of Some e \<Rightarrow> Inl e
      | None \<Rightarrow>
         (case data s key of None \<Rightarrow> Inr []
          | Some (VString v) \<Rightarrow> Inr v
          | Some (VBytes _) \<Rightarrow> Inl ErrTypeAssertionFailed))"

definition Session_GetBytes :: "Session \<Rightarrow> string \<Rightarrow> err + string" where
  "Session_GetBytes s key =
     (case loadErr s of Some e \<Rightarrow> Inl e
      | None \<Rightarrow>
         (case data s key of None \<Rightarrow> Inr []
          | Some (VBytes v) \<Rightarrow> Inr v
          | Some (VString _) \<Rightarrow> Inl ErrTypeAssertionFailed))"

text \<open>
  The calls the flow issues to its collaborators, in the order they are made: reads, writes
  and removals of a provider's session blob, and the provider's remote operations.
\<close>

datatype Call =
    SessionGetBytes string
  | SessionPutBytes string string
  | SessionRemove string
  | ProviderBeginAuth string
  | ProviderFetchUser
  | ProviderAuthorize "(string \<times> string) list"

text \<open>
  What a handler can change: the session of the request (\<open>store.Load(req)\<close>), the response
  under construction, the log output, the calls made so far, and how many values the
  process-wide random generator has produced.
\<close>

record World =
  session :: Session
  response :: Response
  logged :: "string list"
  calls :: "Call list"
  randPos :: nat

definition call :: "Call \<Rightarrow> World \<Rightarrow> World" where
  "call c w = w\<lparr>calls := calls w @ [c]\<rparr>"

definition log_Print :: "string \<Rightarrow> World \<Rightarrow> World" where
  "log_Print msg w = w\<lparr>logged := logged w @ [msg]\<rparr>"

definition Session_write :: "(string \<Rightarrow> SVal option) \<Rightarrow> World \<Rightarrow> err option \<times> World" where
  \<comment> \<open>saving the changed table and sending the cookie\<close>
  "Session_write d w =
     (case saveErr (session w) of Some e \<Rightarrow> (Some e, w)
      | None \<Rightarrow>
         (None, w\<lparr>session := (session w)\<lparr>data := d\<rparr>,
                  response := Header_Add ''Set-Cookie'' (token (session w)) (response w)\<rparr>))"

definition Session_put :: "string \<Rightarrow> SVal \<Rightarrow> World \<Rightarrow> err option \<times> World" where
  "Session_put key v w =
     (case loadErr (session w) of Some e \<Rightarrow> (Some e, w)
      | None \<Rightarrow> Session_write ((data (session w))(key \<mapsto> v)) w)"

definition Session_PutString :: "string \<Rightarrow> string \<Rightarrow> World \<Rightarrow> err option \<times> World" where
  "Session_PutString key v w = Session_put key (VString v) w"

definition Session_PutBytes :: "string \<Rightarrow> string \<Rightarrow> World \<Rightarrow> err option \<times> World" where
  "Session_PutBytes key v w = Session_put key (VBytes v) (call (SessionPutBytes key v) w)"

definition Session_Remove :: "string \<Rightarrow> World \<Rightarrow> err option \<times> World" where
  "Session_Remove key w =
     (let w0 = call (SessionRemove key) w in
      case loadErr (session w0) of Some e \<Rightarrow> (Some e, w0)
      | None \<Rightarrow>
         (case data (session w0) key of None \<Rightarrow> (None, w0)
          | Some _ \<Rightarrow> Session_write ((data (session w0))(key := None)) w0))"

section \<open>Access policy (package auth, provider file)\<close>

type_synonym AccessType = int

definition NoneAccess :: AccessType where
  "NoneAccess = 0"

definition AdminAccess :: AccessType where
  "AdminAccess = 1"

record UserInfo =
  Access :: AccessType
  Email :: string

record Provider =
  DeniedPage :: string
  SuccessPage :: string
  DefaultProvider :: string
  UserList :: "UserInfo list"

fun scanUserList :: "UserInfo list \<Rightarrow> string \<Rightarrow> AccessType" where
  "scanUserList [] email = NoneAccess"
| "scanUserList (el # rest) email =
     (if Email el = email then Access el else scanUserList rest email)"

definition getAccessByEmail :: "Provider \<Rightarrow> string \<Rightarrow> AccessType" where
  "getAccessByEmail t email = scanUserList (UserList t) email"

definition GetAccess :: "Provider \<Rightarrow> Request \<Rightarrow> World \<Rightarrow> AccessType" where
  "GetAccess t req w =
     (case Session_GetString (session w) ''email'' of
        Inl _ \<Rightarrow> NoneAccess
      | Inr email \<Rightarrow> if email = [] then NoneAccess else getAccessByEmail t email)"

fun scanTypes :: "AccessType list \<Rightarrow> AccessType \<Rightarrow> bool" where
  "scanTypes [] access = False"
| "scanTypes (el # rest) access = (if el = access then True else scanTypes rest access)"

definition CheckAccess :: "Provider \<Rightarrow> Request \<Rightarrow> World \<Rightarrow> AccessType list \<Rightarrow> bool" where
  "CheckAccess t req w types = scanTypes types (GetAccess t req w)"

section \<open>Collaborators of the OAuth flow\<close>

text \<open>
  The provider library (\<open>goth\<close>) and the standard library are external. A provider is
  taken as the operations the flow calls on it and on its sessions; \<open>'sess\<close> is the
  provider's session type. \<open>Authorize\<close> updates the session it is called on, so it
  returns the updated session.
\<close>

record goth_User =
  goth_Email :: string
  goth_UserID :: string

record 'sess goth_Provider =
  BeginAuth :: "string \<Rightarrow> err + 'sess"
  UnmarshalSession :: "string \<Rightarrow> err + 'sess"
  FetchUser :: "'sess \<Rightarrow> err + goth_User"
  Authorize :: "'sess \<Rightarrow> (string \<times> string) list \<Rightarrow> err + 'sess"
  Marshal :: "'sess \<Rightarrow> string"
  GetAuthURL :: "'sess \<Rightarrow> err + string"

text \<open>
  The environment of the package: the providers registered with \<open>goth.UseProviders\<close>, and
  the library functions the code calls, taken as parameters. \<open>gzip_compress\<close> is the
  writer's \<open>Write\<close>, \<open>Flush\<close> and \<open>Close\<close> into the buffer (an error of any of the
  three is its error); \<open>gzip_NewReader\<close> checks the header and gives the reader,
  \<open>gzip_ReadAll\<close> is \<open>ioutil.ReadAll\<close> of that reader; \<open>url_Parse_Query\<close> is
  \<open>url.Parse\<close> followed by \<open>Query()\<close>; \<open>Int63 n\<close> is the n-th value of the seeded
  generator.
\<close>

record 'sess Env =
  providers :: "string \<Rightarrow> 'sess goth_Provider option"
  gzip_compress :: "string \<Rightarrow> err + string"
  gzip_NewReader :: "string \<Rightarrow> err + string"
  gzip_ReadAll :: "string \<Rightarrow> err + string"
  url_Parse_Query :: "string \<Rightarrow> err + (string \<times> string) list"
  base64_URLEncoding :: "string \<Rightarrow> string"
  Int63 :: "nat \<Rightarrow> int"
  http_Redirect :: "Request \<Rightarrow> string \<Rightarrow> nat \<Rightarrow> Response \<Rightarrow> Response"

definition goth_GetProvider :: "'sess Env \<Rightarrow> string \<Rightarrow> err + 'sess goth_Provider" where
  "goth_GetProvider E name =
     (case providers E name of
        None \<Rightarrow> Inl (''no provider for '' @ name @ '' exists'')
      | Some p \<Rightarrow> Inr p)"

definition provider_BeginAuth ::
  "'sess goth_Provider \<Rightarrow> string \<Rightarrow> World \<Rightarrow> (err + 'sess) \<times> World" where
  "provider_BeginAuth p state w = (BeginAuth p state, call (ProviderBeginAuth state) w)"

definition provider_FetchUser ::
  "'sess goth_Provider \<Rightarrow> 'sess \<Rightarrow> World \<Rightarrow> (err + goth_User) \<times> World" where
  "provider_FetchUser p sess w = (FetchUser p sess, call ProviderFetchUser w)"

definition sess_Authorize ::
  "'sess goth_Provider \<Rightarrow> 'sess \<Rightarrow> (string \<times> string) list \<Rightarrow> World \<Rightarrow> (err + 'sess) \<times> World" where
  "sess_Authorize p sess params w = (Authorize p sess params, call (ProviderAuthorize params) w)"

section \<open>The OAuth flow (package auth, flow file)\<close>

definition getProviderName :: "Request \<Rightarrow> err + string" where
  "getProviderName req =
     (let p = chi_URLParam req ''provider'' in
      if p \<noteq> [] then Inr p else Inl ''you must select a provider'')"

definition getSessionValue :: "'sess Env \<Rightarrow> string \<Rightarrow> World \<Rightarrow> (err + string) \<times> World" where
  "getSessionValue E key w =
     (let w0 = call (SessionGetBytes key) w in
      case Session_GetBytes (session w0) key of
        Inl _ \<Rightarrow> (Inl ''could not find a matching session for this request'', w0)
      | Inr v \<Rightarrow>
         (case gzip_NewReader E v of
            Inl e \<Rightarrow> (Inl e, w0)
          | Inr r \<Rightarrow>
             (case gzip_ReadAll E r of
                Inl e \<Rightarrow> (Inl e, w0)
              | Inr s \<Rightarrow> (Inr s, w0))))"

definition updateSessionValue :: "'sess Env \<Rightarrow> string \<Rightarrow> string \<Rightarrow> World \<Rightarrow> err option \<times> World" where
  "updateSessionValue E key v w =
     (case gzip_compress E v of
        Inl e \<Rightarrow> (Some e, w)
      | Inr b \<Rightarrow> Session_PutBytes key b w)"

definition storeInSession :: "'sess Env \<Rightarrow> string \<Rightarrow> string \<Rightarrow> World \<Rightarrow> err option \<times> World" where
  "storeInSession E key v w = updateSessionValue E key v w"

definition getFromSession :: "'sess Env \<Rightarrow> string \<Rightarrow> World \<Rightarrow> (err + string) \<times> World" where
  "getFromSession E key w =
     (case getSessionValue E key w of
        (Inl e, w1) \<Rightarrow>
          (Inl ''could not find a matching session for this request'', log_Print e w1)
      | (Inr v, w1) \<Rightarrow> (Inr v, w1))"

definition getState :: "Request \<Rightarrow> string" where
  "getState req = Values_Get (Query req) ''state''"

definition setState :: "'sess Env \<Rightarrow> Request \<Rightarrow> World \<Rightarrow> string \<times> World" where
  "setState E req w =
     (let state = Values_Get (Query req) ''state'' in
      if length state > 0 then (state, w)
      else
        (base64_URLEncoding E
           (map (\<lambda>i. char_of (Int63 E (randPos w + i) mod 256)) [0..<64]),
         w\<lparr>randPos := randPos w + 64\<rparr>))"

definition validateState ::
  "'sess Env \<Rightarrow> 'sess goth_Provider \<Rightarrow> Request \<Rightarrow> 'sess \<Rightarrow> err option" where
  "validateState E p req sess =
     (case GetAuthURL p sess of
        Inl e \<Rightarrow> Some e
      | Inr rawAuthURL \<Rightarrow>
         (case url_Parse_Query E rawAuthURL of
            Inl e \<Rightarrow> Some e
          | Inr authQuery \<Rightarrow>
             (let originalState = Values_Get authQuery ''state'' in
              if originalState \<noteq> [] \<and> originalState \<noteq> Values_Get (Query req) ''state''
              then Some ''state token mismatch''
              else None)))"

definition logout :: "Request \<Rightarrow> World \<Rightarrow> err option \<times> World" where
  "logout req w =
     (case getProviderName req of
        Inl _ \<Rightarrow> (Some ''Can't detect provider'', w)
      | Inr name \<Rightarrow>
         (case Session_Remove name w of
            (Some _, w1) \<Rightarrow> (Some ''Could not delete user session '', w1)
          | (None, w1) \<Rightarrow> (None, w1)))"

definition getAuthURL :: "'sess Env \<Rightarrow> Request \<Rightarrow> World \<Rightarrow> (err + string) \<times> World" where
  "getAuthURL E req w =
     (case getProviderName req of
        Inl e \<Rightarrow> (Inl e, w)
      | Inr providerName \<Rightarrow>
     (case goth_GetProvider E providerName of
        Inl e \<Rightarrow> (Inl e, w)
      | Inr provider \<Rightarrow>
     (case setState E req w of (state, w1) \<Rightarrow>
     (case provider_BeginAuth provider state w1 of
        (Inl e, w2) \<Rightarrow> (Inl e, w2)
      | (Inr sess, w2) \<Rightarrow>
     (case GetAuthURL provider sess of
        Inl e \<Rightarrow> (Inl e, w2)
      | Inr url \<Rightarrow>
     (case storeInSession E providerName (Marshal provider sess) w2 of
        (Some e, w3) \<Rightarrow> (Inl e, w3)
      | (None, w3) \<Rightarrow> (Inr url, w3)))))))"

definition beginAuthHandler :: "'sess Env \<Rightarrow> Request \<Rightarrow> World \<Rightarrow> World" where
  "beginAuthHandler E req w =
     (case getAuthURL E req w of
        (Inl e, w1) \<Rightarrow>
          w1\<lparr>response := Write (e @ [CHR 0x0A]) (WriteHeader StatusBadRequest (response w1))\<rparr>
      | (Inr url, w1) \<Rightarrow>
          w1\<lparr>response := http_Redirect E req url StatusTemporaryRedirect (response w1)\<rparr>)"

text \<open>
  \<open>completeUserAuth\<close> opens with \<open>defer logout(res, req)\<close>: the statements after it are
  \<open>completeUserAuth_body\<close>, and \<open>logout\<close> runs when the body returns, on whichever
  path; what \<open>logout\<close> returns is dropped.
\<close>

definition completeUserAuth_body ::
  "'sess Env \<Rightarrow> Request \<Rightarrow> World \<Rightarrow> (err + goth_User) \<times> World" where
  "completeUserAuth_body E req w =
     (case getProviderName req of
        Inl e \<Rightarrow> (Inl e, w)
      | Inr providerName \<Rightarrow>
     (case goth_GetProvider E providerName of
        Inl e \<Rightarrow> (Inl e, w)
      | Inr provider \<Rightarrow>
     (case getFromSession E providerName w of
        (Inl e, w1) \<Rightarrow> (Inl e, w1)
      | (Inr v, w1) \<Rightarrow>
     (case UnmarshalSession provider v of
        Inl e \<Rightarrow> (Inl e, w1)
      | Inr sess \<Rightarrow>
     (case validateState E provider req sess of
        Some e \<Rightarrow> (Inl e, w1)
      | None \<Rightarrow>
     (case provider_FetchUser provider sess w1 of
        (Inr user, w2) \<Rightarrow> (Inr user, w2)
      | (Inl _, w2) \<Rightarrow>
     (case sess_Authorize provider sess (Query req) w2 of
        (Inl e, w3) \<Rightarrow> (Inl e, w3)
      | (Inr sess', w3) \<Rightarrow>
     (case storeInSession E providerName (Marshal provider sess') w3 of
        (Some e, w4) \<Rightarrow> (Inl e, w4)
      | (None, w4) \<Rightarrow> provider_FetchUser provider sess' w4))))))))"

definition completeUserAuth ::
  "'sess Env \<Rightarrow> Request \<Rightarrow> World \<Rightarrow> (err + goth_User) \<times> World" where
  "completeUserAuth E req w =
     (case completeUserAuth_body E req w of
        (r, w1) \<Rightarrow> (case logout req w1 of (_, w2) \<Rightarrow> (r, w2)))"

section \<open>The routes (package auth, provider file)\<close>

definition redirect :: "string \<Rightarrow> Response \<Rightarrow> Response" where
  "redirect url res = WriteHeader StatusTemporaryRedirect (Header_Set ''Location'' url res)"

definition gateway :: "Provider \<Rightarrow> Request \<Rightarrow> string \<Rightarrow> World \<Rightarrow> World" where
  "gateway t req email w =
     (let access = getAccessByEmail t email in
      if access = NoneAccess then w\<lparr>response := redirect (DeniedPage t) (response w)\<rparr>
      else
        (case Session_PutString ''email'' email w of
           (Some _, w1) \<Rightarrow>
             (let w2 = log_Print ''Can't save auth info into session'' w1
              in w2\<lparr>response := redirect (DeniedPage t) (response w2)\<rparr>)
         | (None, w1) \<Rightarrow> w1\<lparr>response := redirect (SuccessPage t) (response w1)\<rparr>))"

definition callbackRoute :: "Provider \<Rightarrow> 'sess Env \<Rightarrow> Request \<Rightarrow> World \<Rightarrow> World" where
  "callbackRoute t E req w =
     (case completeUserAuth E req w of
        (Inl e, w1) \<Rightarrow> log_Print (''Can't complete user's authentication, '' @ e) w1
      | (Inr user, w1) \<Rightarrow> gateway t req (goth_Email user) w1)"

definition loginRoute :: "Provider \<Rightarrow> 'sess Env \<Rightarrow> Request \<Rightarrow> World \<Rightarrow> World" where
  "loginRoute t E req w =
     (case completeUserAuth E req w of
        (Inr user, w1) \<Rightarrow> gateway t req (goth_Email user) w1
      | (Inl _, w1) \<Rightarrow> beginAuthHandler E req w1)"

definition logoutRoute :: "Provider \<Rightarrow> Request \<Rightarrow> World \<Rightarrow> World" where
  "logoutRoute t req w =
     (case logout req w of (_, w1) \<Rightarrow> w1\<lparr>response := redirect (SuccessPage t) (response w1)\<rparr>)"

section \<open>What the flow leaves alone\<close>

text \<open>
  Two worlds agree on the failure modes of the session and on the reply so far: the status
  line, the body and the \<open>Location\<close> header.
\<close>

definition same_reply :: "World \<Rightarrow> World \<Rightarrow> bool" where
  "same_reply w w' =
     (loadErr (session w') = loadErr (session w) \<and>
      saveErr (session w') = saveErr (session w) \<and>
      Status (response w') = Status (response w) \<and>
      Body (response w') = Body (response w) \<and>
      Header (response w') ''Location'' = Header (response w) ''Location'')"

section \<open>A small configuration for concrete runs\<close>

text \<open>
  A provider whose session is the pair of the state token and the access token, with the
  state embedded in its authorization URL; a codec that frames the payload with a two-byte
  header; one administrator in the user list.
\<close>

definition exProvider :: "(string \<times> string) goth_Provider" where
  "exProvider =
     \<lparr>BeginAuth = (\<lambda>state. Inr (state, [])),
      UnmarshalSession = (\<lambda>v. Inr (takeWhile (\<lambda>c. c \<noteq> CHR '':'') v,
                                     drop 1 (dropWhile (\<lambda>c. c \<noteq> CHR '':'') v))),
      FetchUser = (\<lambda>(st, tk). if tk = [] then Inl ''no token''
                               else Inr \<lparr>goth_Email = ''a@x.org'', goth_UserID = tk\<rparr>),
      Authorize = (\<lambda>(st, tk) params.
                     case map_of params ''code'' of None \<Rightarrow> Inl ''no code''
                     | Some c \<Rightarrow> Inr (st, c)),
      Marshal = (\<lambda>(st, tk). st @ '':'' @ tk),
      GetAuthURL = (\<lambda>(st, tk). Inr (''u?state='' @ st))\<rparr>"

definition exEnv :: "(string \<times> string) Env" where
  "exEnv =
     \<lparr>providers = (\<lambda>name. if name = ''gplus'' then Some exProvider else None),
      gzip_compress = (\<lambda>v. Inr (''GZ'' @ v)),
      gzip_NewReader = (\<lambda>z. if take 2 z = ''GZ'' then Inr (drop 2 z) else Inl ''EOF''),
      gzip_ReadAll = (\<lambda>r. Inr r),
      url_Parse_Query = (\<lambda>raw. if take 8 raw = ''u?state='' then Inr [(''state'', drop 8 raw)]
                                 else Inr []),
      base64_URLEncoding = (\<lambda>bs. bs),
      Int63 = (\<lambda>n. int n),
      http_Redirect = (\<lambda>req url code res. WriteHeader code (Header_Set ''Location'' url res))\<rparr>"

definition exResponse :: Response where
  "exResponse = \<lparr>Header = (\<lambda>k. []), Status = None, Body = []\<rparr>"

definition exSession :: "(string \<Rightarrow> SVal option) \<Rightarrow> err option \<Rightarrow> Session" where
  "exSession d se = \<lparr>data = d, loadErr = None, saveErr = se, token = ''t1''\<rparr>"

definition exWorld :: "(string \<Rightarrow> SVal option) \<Rightarrow> err option \<Rightarrow> World" where
  "exWorld d se =
     \<lparr>session = exSession d se, response = exResponse, logged = [], calls = [], randPos = 0\<rparr>"

definition exRequest :: "string \<Rightarrow> (string \<times> string) list \<Rightarrow> Request" where
  "exRequest name q = \<lparr>URLParams = [(''provider'', name)], Query = q\<rparr>"

definition exAuth :: Provider where
  "exAuth =
     \<lparr>DeniedPage = ''/auth-denied'', SuccessPage = ''/'', DefaultProvider = ''gplus'',
      UserList = [\<lparr>Access = AdminAccess, Email = ''a@x.org''\<rparr>]\<rparr>"

section \<open>Frame lemmas\<close>

lemma call_simps:
  "calls (call c w) = calls w @ [c]" "session (call c w) = session w"
  "response (call c w) = response w" "logged (call c w) = logged w"
  by (simp_all add: call_def)

lemma log_Print_simps:
  "calls (log_Print m w) = calls w" "session (log_Print m w) = session w"
  "response (log_Print m w) = response w" "logged (log_Print m w) = logged w @ [m]"
  by (simp_all add: log_Print_def)

lemma same_reply_refl: "same_reply w w"
  by (simp add: same_reply_def)

lemma same_reply_trans: "same_reply w w1 \<Longrightarrow> same_reply w1 w2 \<Longrightarrow> same_reply w w2"
  by (simp add: same_reply_def)

lemma same_reply_call: "same_reply w (call c w1) = same_reply w w1"
  by (simp add: same_reply_def call_simps)

lemma same_reply_log: "same_reply w (log_Print m w1) = same_reply w w1"
  by (simp add: same_reply_def log_Print_simps)

lemma same_reply_call_left: "same_reply (call c w) w1 = same_reply w w1"
  by (simp add: same_reply_def call_simps)

lemma Session_write_cases:
  "Session_write d w = (r, w') \<Longrightarrow>
     (\<exists>e. saveErr (session w) = Some e \<and> r = Some e \<and> w' = w) \<or>
     (saveErr (session w) = None \<and> r = None \<and> 
      w' = w\<lparr>session := (session w)\<lparr>data := d\<rparr>,
             response := Header_Add ''Set-Cookie'' (token (session w)) (response w)\<rparr>)"
  by (auto simp: Session_write_def split: option.splits)

lemma Session_write_frame:
  assumes "Session_write d w = (r, w')"
  shows "same_reply w w' \<and> calls w' = calls w \<and> logged w' = logged w"
  using Session_write_cases[OF assms] by (auto simp: Header_Add_def same_reply_def)

lemma Session_PutBytes_frame:
  assumes "Session_PutBytes key v w = (r, w')"
  shows "same_reply w w' \<and> calls w' = calls w @ [SessionPutBytes key v] \<and> logged w' = logged w"
proof (cases "loadErr (session w)")
  case (Some e)
  with assms show ?thesis
    by (auto simp: Session_PutBytes_def Session_put_def call_simps same_reply_call same_reply_refl)
next
  case None
  with assms have "Session_write ((data (session w))(key \<mapsto> VBytes v)) (call (SessionPutBytes key v) w) = (r, w')"
    by (simp add: Session_PutBytes_def Session_put_def call_simps)
  from Session_write_frame[OF this] show ?thesis
    by (simp add: same_reply_def call_simps)
qed

lemma Session_PutBytes_result:
  "fst (Session_PutBytes key v w) =
     (case loadErr (session w) of Some e \<Rightarrow> Some e | None \<Rightarrow> saveErr (session w))"
  by (auto simp: Session_PutBytes_def Session_put_def Session_write_def call_simps split: option.splits)

lemma Session_Remove_frame:
  assumes "Session_Remove key w = (r, w')"
  shows "same_reply w w' \<and> calls w' = calls w @ [SessionRemove key] \<and> logged w' = logged w"
proof (cases "loadErr (session w) = None \<and> data (session w) key \<noteq> None")
  case False
  with assms show ?thesis
    by (auto simp: Session_Remove_def Let_def call_simps same_reply_call same_reply_refl
        split: option.splits)
next
  case True
  with assms have "Session_write ((data (session w))(key := None)) (call (SessionRemove key) w) = (r, w')"
    by (auto simp: Session_Remove_def Let_def call_simps)
  from Session_write_frame[OF this] show ?thesis
    by (simp add: same_reply_def call_simps)
qed

lemma Session_Remove_clears:
  assumes "Session_Remove key w = (r, w')" "loadErr (session w) = None" "saveErr (session w) = None"
  shows "data (session w') key = None"
  using assms
  by (auto simp: Session_Remove_def Session_write_def Let_def call_simps split: option.splits)

lemma logout_frame:
  assumes "logout req w = (r, w')"
  shows "same_reply w w' \<and> logged w' = logged w"
  using assms
  by (auto simp: logout_def same_reply_refl split: sum.splits prod.splits option.splits
      dest!: Session_Remove_frame)

lemma logout_calls:
  assumes "logout req w = (r, w')" "getProviderName req = Inr name"
  shows "calls w' = calls w @ [SessionRemove name]"
  using assms
  by (auto simp: logout_def split: sum.splits prod.splits option.splits
      dest!: Session_Remove_frame)

lemma logout_clears:
  assumes "logout req w = (r, w')" "getProviderName req = Inr name"
    "loadErr (session w) = None" "saveErr (session w) = None"
  shows "data (session w') name = None"
  using assms
  by (auto simp: logout_def split: sum.splits prod.splits option.splits
      dest: Session_Remove_clears)

lemma getSessionValue_world: "snd (getSessionValue E key w) = call (SessionGetBytes key) w"
  by (simp add: getSessionValue_def Let_def split: sum.splits)

lemma getFromSession_Inr:
  assumes "getFromSession E key w = (Inr v, w1)"
  shows "w1 = call (SessionGetBytes key) w \<and> loadErr (session w) = None"
proof -
  from assms obtain w0 where g: "getSessionValue E key w = (Inr v, w0)" and "w1 = w0"
    by (auto simp: getFromSession_def split: prod.splits sum.splits)
  with getSessionValue_world[of E key w] have "w1 = call (SessionGetBytes key) w" by simp
  moreover from g have "loadErr (session w) = None"
    by (auto simp: getSessionValue_def Let_def Session_GetBytes_def call_simps
        split: sum.splits option.splits)
  ultimately show ?thesis by simp
qed

lemma getFromSession_Inl:
  assumes "getFromSession E key w = (Inl e, w1)"
  shows "\<exists>m. w1 = log_Print m (call (SessionGetBytes key) w)"
proof -
  from assms obtain m w0 where g: "getSessionValue E key w = (Inl m, w0)" and "w1 = log_Print m w0"
    by (auto simp: getFromSession_def split: prod.splits sum.splits)
  with getSessionValue_world[of E key w] show ?thesis by auto
qed

lemma storeInSession_cases:
  assumes "storeInSession E key v w = (r, w')"
  shows "(\<exists>e. gzip_compress E v = Inl e \<and> r = Some e \<and> w' = w) \<or>
         (\<exists>b. gzip_compress E v = Inr b \<and> Session_PutBytes key b w = (r, w'))"
  using assms
  by (auto simp: storeInSession_def updateSessionValue_def split: sum.splits)

lemma storeInSession_frame:
  assumes "storeInSession E key v w = (r, w')"
  shows "same_reply w w' \<and> logged w' = logged w \<and>
         calls w' = calls w @
           (case gzip_compress E v of Inl _ \<Rightarrow> [] | Inr b \<Rightarrow> [SessionPutBytes key b])"
  using storeInSession_cases[OF assms] by (auto simp: same_reply_refl dest!: Session_PutBytes_frame)

lemma storeInSession_result:
  "fst (storeInSession E key v w) =
     (case gzip_compress E v of Inl e \<Rightarrow> Some e
      | Inr b \<Rightarrow> (case loadErr (session w) of Some e \<Rightarrow> Some e | None \<Rightarrow> saveErr (session w)))"
  by (simp add: storeInSession_def updateSessionValue_def Session_PutBytes_result split: sum.splits)

lemma provider_call_simps:
  "provider_FetchUser p sess w = (FetchUser p sess, call ProviderFetchUser w)"
  "sess_Authorize p sess params w = (Authorize p sess params, call (ProviderAuthorize params) w)"
  "provider_BeginAuth p state w = (BeginAuth p state, call (ProviderBeginAuth state) w)"
  by (simp_all add: provider_FetchUser_def sess_Authorize_def provider_BeginAuth_def)

lemma body_frame:
  assumes "completeUserAuth_body E req w = (r, w')"
  shows "same_reply w w'"
  using assms
  by (auto simp: completeUserAuth_body_def provider_call_simps same_reply_call same_reply_log
        same_reply_refl same_reply_call_left
      split: sum.splits prod.splits option.splits
      dest!: getFromSession_Inr getFromSession_Inl storeInSession_frame)

lemma body_calls:
  assumes "completeUserAuth_body E req w = (r, w')"
  shows "\<exists>cs. calls w' = calls w @ cs \<and> (\<forall>k. SessionRemove k \<notin> set cs) \<and>
           (\<forall>u name. r = Inr u \<longrightarrow> getProviderName req = Inr name \<longrightarrow> SessionGetBytes name \<in> set cs)"
  using assms
  by (auto simp: completeUserAuth_body_def provider_call_simps call_simps log_Print_simps
      split: sum.splits prod.splits option.splits
      dest!: getFromSession_Inr getFromSession_Inl storeInSession_frame)

lemmas ex_defs =
  exEnv_def exProvider_def exWorld_def exSession_def exResponse_def exRequest_def exAuth_def

lemmas flow_defs =
  getProviderName_def chi_URLParam_def goth_GetProvider_def getFromSession_def
  getSessionValue_def Session_GetBytes_def validateState_def Values_Get_def getState_def
  storeInSession_def updateSessionValue_def Session_PutBytes_def Session_put_def
  Session_write_def Session_Remove_def logout_def call_def log_Print_def
  provider_FetchUser_def sess_Authorize_def provider_BeginAuth_def Header_Add_def

section \<open>The access policy\<close>

lemma scanUserList_no_match:
  "email \<notin> Email ` set us \<Longrightarrow> scanUserList us email = NoneAccess"
  by (induction us) auto

lemma scanUserList_find:
  "scanUserList us email =
     (case find (\<lambda>el. Email el = email) us of None \<Rightarrow> NoneAccess | Some el \<Rightarrow> Access el)"
  by (induction us) auto

lemma scanTypes_mem: "scanTypes types access = (access \<in> set types)"
  by (induction types) auto

text \<open>
  C5, as the code has it. An email that matches no entry of the user list has access level
  \<open>NoneAccess\<close>, both in \<open>getAccessByEmail\<close> and in \<open>GetAccess\<close>. \<open>GetAccess\<close>
  answers \<open>NoneAccess\<close> when the email held by the session is the empty string.
  \<open>getAccessByEmail\<close> has no rule of its own for the empty string: it is looked up like
  any other email, and gets the level of the first entry whose email is empty, or
  \<open>NoneAccess\<close> when there is none.
\<close>

theorem access_lookup_none:
  "(email \<notin> Email ` set (UserList t) \<longrightarrow> getAccessByEmail t email = NoneAccess) \<and>
   (Session_GetString (session w) ''email'' = Inr email \<and>
      (email = [] \<or> email \<notin> Email ` set (UserList t)) \<longrightarrow>
    GetAccess t req w = NoneAccess) \<and>
   getAccessByEmail t [] =
     (case find (\<lambda>el. Email el = []) (UserList t) of
        None \<Rightarrow> NoneAccess
      | Some el \<Rightarrow> Access el)"
proof -
  have "getAccessByEmail t [] =
     (case find (\<lambda>el. Email el = []) (UserList t) of
        None \<Rightarrow> NoneAccess
      | Some el \<Rightarrow> Access el)"
    by (simp add: getAccessByEmail_def scanUserList_find)
  then show ?thesis
    by (auto simp: getAccessByEmail_def GetAccess_def scanUserList_no_match)
qed

text \<open>The property at concrete runs, one of them with an entry whose email is empty.\<close>

theorem access_lookup_none_witness:
  "''b@x.org'' \<notin> Email ` set (UserList exAuth) \<and>
   getAccessByEmail exAuth ''b@x.org'' = NoneAccess \<and>
   Session_GetString (session (exWorld Map.empty None)) ''email'' = Inr [] \<and>
   GetAccess exAuth (exRequest ''gplus'' []) (exWorld Map.empty None) = NoneAccess \<and>
   Session_GetString (session (exWorld [''email'' \<mapsto> VString ''b@x.org''] None)) ''email''
     = Inr ''b@x.org'' \<and>
   GetAccess exAuth (exRequest ''gplus'' []) (exWorld [''email'' \<mapsto> VString ''b@x.org''] None)
     = NoneAccess \<and>
   GetAccess (exAuth\<lparr>UserList := [\<lparr>Access = AdminAccess, Email = []\<rparr>]\<rparr>)
     (exRequest ''gplus'' []) (exWorld Map.empty None) = NoneAccess \<and>
   getAccessByEmail (exAuth\<lparr>UserList := [\<lparr>Access = AdminAccess, Email = []\<rparr>]\<rparr>) []
     = AdminAccess"
proof -
  let ?blank = "exAuth\<lparr>UserList := [\<lparr>Access = AdminAccess, Email = []\<rparr>]\<rparr>"
  have a: "''b@x.org'' \<notin> Email ` set (UserList exAuth)"
    by (simp add: exAuth_def)
  have b: "Session_GetString (session (exWorld Map.empty None)) ''email'' = Inr []"
    by (simp add: Session_GetString_def exWorld_def exSession_def)
  have c: "Session_GetString (session (exWorld [''email'' \<mapsto> VString ''b@x.org''] None)) ''email''
     = Inr ''b@x.org''"
    by (simp add: Session_GetString_def exWorld_def exSession_def)
  have d: "find (\<lambda>el. Email el = []) (UserList ?blank) = Some \<lparr>Access = AdminAccess, Email = []\<rparr>"
    by simp
  from a b c d
    access_lookup_none [of "''b@x.org''" exAuth "exWorld [''email'' \<mapsto> VString ''b@x.org''] None"
      "exRequest ''gplus'' []"]
    access_lookup_none [of "[]" exAuth "exWorld Map.empty None" "exRequest ''gplus'' []"]
    access_lookup_none [of "[]" ?blank "exWorld Map.empty None" "exRequest ''gplus'' []"]
  show ?thesis by simp
qed

text \<open>
  A user list whose only entry has an empty email and administrator access: looking up the
  empty email with \<open>getAccessByEmail\<close>, as \<open>gateway\<close> does with the email the provider
  reports, gives \<open>AdminAccess\<close>, and \<open>gateway\<close> then redirects to the success page.
\<close>

theorem empty_email_counterexample:
  "getAccessByEmail (exAuth\<lparr>UserList := [\<lparr>Access = AdminAccess, Email = []\<rparr>]\<rparr>) []
     = AdminAccess \<and>
   AdminAccess \<noteq> NoneAccess \<and>
   Header (response (gateway (exAuth\<lparr>UserList := [\<lparr>Access = AdminAccess, Email = []\<rparr>]\<rparr>)
     (exRequest ''gplus'' []) [] (exWorld Map.empty None))) ''Location'' = [''/'']"
  by (simp add: getAccessByEmail_def gateway_def AdminAccess_def NoneAccess_def
      Session_PutString_def Session_put_def Session_write_def redirect_def WriteHeader_def
      Header_Set_def Header_Add_def StatusTemporaryRedirect_def ex_defs)

text \<open>
  C6. For every entry of the user list, looking up its email returns the level of the first
  entry of the list that has exactly that email: with duplicates, the first one wins.
\<close>

theorem first_match_wins:
  "el \<in> set (UserList t) \<Longrightarrow>
   \<exists>first. find (\<lambda>e. Email e = Email el) (UserList t) = Some first \<and>
           getAccessByEmail t (Email el) = Access first"
proof -
  assume "el \<in> set (UserList t)"
  then have "find (\<lambda>e. Email e = Email el) (UserList t) \<noteq> None"
    by (auto simp: find_None_iff)
  then obtain first where "find (\<lambda>e. Email e = Email el) (UserList t) = Some first"
    by auto
  then show ?thesis
    by (simp add: getAccessByEmail_def scanUserList_find)
qed

text \<open>The property at a concrete run.\<close>

theorem first_match_wins_witness:
  "\<lparr>Access = NoneAccess, Email = ''a@x.org''\<rparr>
     \<in> set [\<lparr>Access = AdminAccess, Email = ''a@x.org''\<rparr>, \<lparr>Access = NoneAccess, Email = ''a@x.org''\<rparr>] \<and>
   getAccessByEmail
     (exAuth\<lparr>UserList := [\<lparr>Access = AdminAccess, Email = ''a@x.org''\<rparr>,
                           \<lparr>Access = NoneAccess, Email = ''a@x.org''\<rparr>]\<rparr>) ''a@x.org''
     = AdminAccess"
  using first_match_wins [of "\<lparr>Access = NoneAccess, Email = ''a@x.org''\<rparr>"
      "exAuth\<lparr>UserList := [\<lparr>Access = AdminAccess, Email = ''a@x.org''\<rparr>,
                           \<lparr>Access = NoneAccess, Email = ''a@x.org''\<rparr>]\<rparr>"]
  by simp

text \<open>
  C7. \<open>CheckAccess\<close> is true exactly when the caller's level is one of the allowed
  levels. The levels are not ordered: an administrator does not pass a check for
  \<open>NoneAccess\<close>, and a caller without access does not pass a check for \<open>AdminAccess\<close>.
\<close>

theorem CheckAccess_exact_membership:
  "CheckAccess t req w types = (GetAccess t req w \<in> set types) \<and>
   (GetAccess t req w = AdminAccess \<longrightarrow> \<not> CheckAccess t req w [NoneAccess]) \<and>
   (GetAccess t req w = NoneAccess \<longrightarrow> \<not> CheckAccess t req w [AdminAccess])"
  by (simp add: CheckAccess_def scanTypes_mem NoneAccess_def AdminAccess_def)

text \<open>The property at a concrete run.\<close>

theorem CheckAccess_exact_membership_witness:
  "GetAccess exAuth (exRequest ''gplus'' []) (exWorld [''email'' \<mapsto> VString ''a@x.org''] None)
     = AdminAccess \<and>
   CheckAccess exAuth (exRequest ''gplus'' []) (exWorld [''email'' \<mapsto> VString ''a@x.org''] None)
     [AdminAccess] \<and>
   \<not> CheckAccess exAuth (exRequest ''gplus'' []) (exWorld [''email'' \<mapsto> VString ''a@x.org''] None)
     [NoneAccess] \<and>
   GetAccess exAuth (exRequest ''gplus'' []) (exWorld Map.empty None) = NoneAccess \<and>
   \<not> CheckAccess exAuth (exRequest ''gplus'' []) (exWorld Map.empty None) [AdminAccess]"
proof -
  let ?w = "exWorld [''email'' \<mapsto> VString ''a@x.org''] None"
  have a: "GetAccess exAuth (exRequest ''gplus'' []) ?w = AdminAccess"
    by (simp add: GetAccess_def Session_GetString_def exWorld_def exSession_def
        getAccessByEmail_def exAuth_def)
  have b: "GetAccess exAuth (exRequest ''gplus'' []) (exWorld Map.empty None) = NoneAccess"
    by (simp add: GetAccess_def Session_GetString_def exWorld_def exSession_def)
  from a b
    CheckAccess_exact_membership [of exAuth "exRequest ''gplus'' []" ?w "[AdminAccess]"]
    CheckAccess_exact_membership [of exAuth "exRequest ''gplus'' []" "exWorld Map.empty None" "[AdminAccess]"]
  show ?thesis by (simp add: NoneAccess_def AdminAccess_def)
qed

section \<open>The session adapter\<close>

text \<open>
  C4. A value stored by \<open>updateSessionValue\<close> under a key is returned unchanged by
  \<open>getSessionValue\<close> under the same key, for a store that accepted the write and a
  gzip library that decompresses what it compressed.
\<close>

theorem session_value_round_trip:
  assumes "updateSessionValue E key v w = (None, w')"
      and "\<And>b. gzip_compress E v = Inr b \<Longrightarrow>
             \<exists>r. gzip_NewReader E b = Inr r \<and> gzip_ReadAll E r = Inr v"
  shows "fst (getSessionValue E key w') = Inr v"
proof -
  from assms(1) obtain b where b: "gzip_compress E v = Inr b"
    and put: "Session_PutBytes key b w = (None, w')"
    by (auto simp: updateSessionValue_def split: sum.splits)
  from put have "loadErr (session w') = None \<and> data (session w') key = Some (VBytes b)"
    by (auto simp: Session_PutBytes_def Session_put_def Session_write_def call_simps
        split: option.splits)
  moreover from assms(2)[OF b] obtain r where "gzip_NewReader E b = Inr r" "gzip_ReadAll E r = Inr v"
    by blast
  ultimately show ?thesis
    by (simp add: getSessionValue_def Let_def Session_GetBytes_def call_simps)
qed

text \<open>The property at a concrete run.\<close>

theorem session_value_round_trip_witness:
  "fst (updateSessionValue exEnv ''gplus'' ''s1:tok'' (exWorld Map.empty None)) = None \<and>
   gzip_compress exEnv ''s1:tok'' = Inr ''GZs1:tok'' \<and>
   gzip_NewReader exEnv ''GZs1:tok'' = Inr ''s1:tok'' \<and>
   gzip_ReadAll exEnv ''s1:tok'' = Inr ''s1:tok'' \<and>
   fst (getSessionValue exEnv ''gplus''
          (snd (updateSessionValue exEnv ''gplus'' ''s1:tok'' (exWorld Map.empty None))))
     = Inr ''s1:tok''"
proof -
  let ?u = "updateSessionValue exEnv ''gplus'' ''s1:tok'' (exWorld Map.empty None)"
  have a: "fst ?u = None"
    by (simp add: flow_defs ex_defs)
  then have a': "?u = (None, snd ?u)"
    by (metis prod.collapse)
  have b: "gzip_compress exEnv ''s1:tok'' = Inr ''GZs1:tok''"
    "gzip_NewReader exEnv ''GZs1:tok'' = Inr ''s1:tok''"
    "gzip_ReadAll exEnv ''s1:tok'' = Inr ''s1:tok''"
    by (simp_all add: exEnv_def)
  have c: "\<exists>r. gzip_NewReader exEnv b = Inr r \<and> gzip_ReadAll exEnv r = Inr ''s1:tok''"
    if "gzip_compress exEnv ''s1:tok'' = Inr b" for b
    using that b by auto
  from session_value_round_trip [OF a' c] a b show ?thesis by simp
qed

section \<open>The state token\<close>

text \<open>
  C2. When the authorization URL of the stored session embeds a state, \<open>validateState\<close>
  accepts a callback whose \<open>state\<close> parameter equals it and rejects any other with
  \<open>state token mismatch\<close>. In \<open>completeUserAuth\<close> the rejected callback ends with that
  error after the session was read and removed, and the accepted one goes on to fetch the
  user.
\<close>

theorem state_round_trip:
  assumes "GetAuthURL p sess = Inr rawAuthURL"
      and "url_Parse_Query E rawAuthURL = Inr authQuery"
      and "Values_Get authQuery ''state'' = original"
      and "original \<noteq> []"
  shows "validateState E p req sess =
           (if getState req = original then None else Some ''state token mismatch'') \<and>
         (getProviderName req = Inr name \<and> goth_GetProvider E name = Inr p \<and>
          getFromSession E name w = (Inr v, w1) \<and> UnmarshalSession p v = Inr sess \<longrightarrow>
            (getState req \<noteq> original \<longrightarrow>
               fst (completeUserAuth E req w) = Inl ''state token mismatch'' \<and>
               calls (snd (completeUserAuth E req w)) =
                 calls w @ [SessionGetBytes name, SessionRemove name]) \<and>
            (getState req = original \<longrightarrow>
               (\<exists>cs. calls (snd (completeUserAuth E req w)) =
                        calls w @ [SessionGetBytes name, ProviderFetchUser] @ cs)))"
proof -
  have vs: "validateState E p req sess =
           (if getState req = original then None else Some ''state token mismatch'')"
    using assms by (auto simp: validateState_def getState_def)
  have "fst (completeUserAuth E req w) = Inl ''state token mismatch'' \<and>
        calls (snd (completeUserAuth E req w)) = calls w @ [SessionGetBytes name, SessionRemove name]"
    if h: "getProviderName req = Inr name" "goth_GetProvider E name = Inr p"
      "getFromSession E name w = (Inr v, w1)" "UnmarshalSession p v = Inr sess"
      and ne: "getState req \<noteq> original"
  proof -
    from h(3) have w1: "w1 = call (SessionGetBytes name) w"
      using getFromSession_Inr by blast
    from h vs ne have b: "completeUserAuth_body E req w = (Inl ''state token mismatch'', w1)"
      by (simp add: completeUserAuth_body_def)
    obtain r w2 where l: "logout req w1 = (r, w2)" by (cases "logout req w1")
    from logout_calls[OF l h(1)] w1 b l show ?thesis
      by (simp add: completeUserAuth_def call_simps)
  qed
  moreover have "\<exists>cs. calls (snd (completeUserAuth E req w)) =
                        calls w @ [SessionGetBytes name, ProviderFetchUser] @ cs"
    if h: "getProviderName req = Inr name" "goth_GetProvider E name = Inr p"
      "getFromSession E name w = (Inr v, w1)" "UnmarshalSession p v = Inr sess"
      and eq: "getState req = original"
  proof -
    from h(3) have w1: "w1 = call (SessionGetBytes name) w"
      using getFromSession_Inr by blast
    obtain r wb where b: "completeUserAuth_body E req w = (r, wb)"
      by (cases "completeUserAuth_body E req w")
    from b h vs eq w1 have "\<exists>cs. calls wb = calls w @ [SessionGetBytes name, ProviderFetchUser] @ cs"
      by (auto simp: completeUserAuth_body_def provider_call_simps call_simps
          split: sum.splits prod.splits option.splits dest!: storeInSession_frame)
    then obtain cs where cs: "calls wb = calls w @ [SessionGetBytes name, ProviderFetchUser] @ cs"
      by blast
    obtain r2 w2 where l: "logout req wb = (r2, w2)" by (cases "logout req wb")
    from logout_calls[OF l h(1)] cs b l show ?thesis
      by (simp add: completeUserAuth_def)
  qed
  ultimately show ?thesis using vs by blast
qed

text \<open>The property at a concrete run.\<close>

theorem state_round_trip_witness:
  "GetAuthURL exProvider (''s1'', ''tok'') = Inr ''u?state=s1'' \<and>
   url_Parse_Query exEnv ''u?state=s1'' = Inr [(''state'', ''s1'')] \<and>
   Values_Get [(''state'', ''s1'')] ''state'' = ''s1'' \<and>
   getProviderName (exRequest ''gplus'' [(''state'', ''s2'')]) = Inr ''gplus'' \<and>
   goth_GetProvider exEnv ''gplus'' = Inr exProvider \<and>
   fst (getFromSession exEnv ''gplus'' (exWorld [''gplus'' \<mapsto> VBytes ''GZs1:tok''] None))
     = Inr ''s1:tok'' \<and>
   UnmarshalSession exProvider ''s1:tok'' = Inr (''s1'', ''tok'') \<and>
   validateState exEnv exProvider (exRequest ''gplus'' [(''state'', ''s1'')]) (''s1'', ''tok'')
     = None \<and>
   validateState exEnv exProvider (exRequest ''gplus'' [(''state'', ''s2'')]) (''s1'', ''tok'')
     = Some ''state token mismatch'' \<and>
   fst (completeUserAuth exEnv (exRequest ''gplus'' [(''state'', ''s2'')])
          (exWorld [''gplus'' \<mapsto> VBytes ''GZs1:tok''] None))
     = Inl ''state token mismatch''"
proof -
  let ?w = "exWorld [''gplus'' \<mapsto> VBytes ''GZs1:tok''] None"
  let ?bad = "exRequest ''gplus'' [(''state'', ''s2'')]"
  let ?good = "exRequest ''gplus'' [(''state'', ''s1'')]"
  have a: "GetAuthURL exProvider (''s1'', ''tok'') = Inr ''u?state=s1''"
    by (simp add: exProvider_def)
  have b: "url_Parse_Query exEnv ''u?state=s1'' = Inr [(''state'', ''s1'')]"
    by (simp add: exEnv_def)
  have c: "Values_Get [(''state'', ''s1'')] ''state'' = ''s1''"
    by (simp add: Values_Get_def)
  have d: "''s1'' \<noteq> []" by simp
  have e: "getProviderName ?bad = Inr ''gplus''"
    by (simp add: getProviderName_def chi_URLParam_def exRequest_def)
  have f: "goth_GetProvider exEnv ''gplus'' = Inr exProvider"
    by (simp add: goth_GetProvider_def exEnv_def)
  have g: "getFromSession exEnv ''gplus'' ?w = (Inr ''s1:tok'', call (SessionGetBytes ''gplus'') ?w)"
    by (simp add: flow_defs ex_defs)
  have h: "UnmarshalSession exProvider ''s1:tok'' = Inr (''s1'', ''tok'')"
    by (simp add: exProvider_def)
  have i: "getState ?bad \<noteq> ''s1''" "getState ?good = ''s1''"
    by (simp_all add: getState_def Values_Get_def exRequest_def)
  from a b c e f g h i
    state_round_trip [OF a b c d, of ?bad "''gplus''" ?w "''s1:tok''" "call (SessionGetBytes ''gplus'') ?w"]
    state_round_trip [OF a b c d, of ?good "''gplus''" ?w "''s1:tok''" "call (SessionGetBytes ''gplus'') ?w"]
  show ?thesis by simp
qed

section \<open>The deferred logout\<close>

text \<open>
  C1, as the code has it. \<open>completeUserAuth\<close> computes its result from the session as it
  was before the call, and the removal of the provider's entry is the last call it makes:
  no removal comes before it, and a call that returns a user has read the entry first.
\<close>

theorem logout_runs_last:
  "getProviderName req = Inr name \<Longrightarrow>
   fst (completeUserAuth E req w) = fst (completeUserAuth_body E req w) \<and>
   (\<exists>cs. calls (snd (completeUserAuth E req w)) = calls w @ cs @ [SessionRemove name] \<and>
         (\<forall>k. SessionRemove k \<notin> set cs) \<and>
         (\<forall>u. fst (completeUserAuth E req w) = Inr u \<longrightarrow> SessionGetBytes name \<in> set cs))"
proof -
  assume n: "getProviderName req = Inr name"
  obtain r wb where b: "completeUserAuth_body E req w = (r, wb)"
    by (cases "completeUserAuth_body E req w")
  obtain r2 w2 where l: "logout req wb = (r2, w2)" by (cases "logout req wb")
  from b l have c: "completeUserAuth E req w = (r, w2)"
    by (simp add: completeUserAuth_def)
  from body_calls[OF b] n obtain cs where cs: "calls wb = calls w @ cs"
    "\<forall>k. SessionRemove k \<notin> set cs" "\<forall>u. r = Inr u \<longrightarrow> SessionGetBytes name \<in> set cs"
    by blast
  from logout_calls[OF l n] cs(1) have "calls w2 = calls w @ cs @ [SessionRemove name]"
    by simp
  with cs(2,3) b c show ?thesis by auto
qed

text \<open>The property at a concrete run.\<close>

theorem logout_runs_last_witness:
  "getProviderName (exRequest ''gplus'' [(''state'', ''s2'')]) = Inr ''gplus'' \<and>
   fst (completeUserAuth_body exEnv (exRequest ''gplus'' [(''state'', ''s2'')])
          (exWorld [''gplus'' \<mapsto> VBytes ''GZs1:tok''] None)) = Inl ''state token mismatch'' \<and>
   fst (completeUserAuth exEnv (exRequest ''gplus'' [(''state'', ''s2'')])
          (exWorld [''gplus'' \<mapsto> VBytes ''GZs1:tok''] None)) = Inl ''state token mismatch'' \<and>
   (\<exists>cs. calls (snd (completeUserAuth exEnv (exRequest ''gplus'' [(''state'', ''s2'')])
          (exWorld [''gplus'' \<mapsto> VBytes ''GZs1:tok''] None))) = cs @ [SessionRemove ''gplus''])"
proof -
  let ?req = "exRequest ''gplus'' [(''state'', ''s2'')]"
  let ?w = "exWorld [''gplus'' \<mapsto> VBytes ''GZs1:tok''] None"
  have a: "getProviderName ?req = Inr ''gplus''"
    by (simp add: getProviderName_def chi_URLParam_def exRequest_def)
  have b: "fst (completeUserAuth_body exEnv ?req ?w) = Inl ''state token mismatch''"
    by (simp add: completeUserAuth_body_def flow_defs ex_defs)
  have c: "calls ?w = []" by (simp add: exWorld_def)
  from logout_runs_last [OF a, of exEnv ?w] a b c show ?thesis by auto
qed

text \<open>
  A callback with a stored session and the right state: the entry is read, the user is
  fetched, and only then is the entry removed. Had the entry been removed first, reading it
  would have failed.
\<close>

theorem logout_first_counterexample:
  "fst (completeUserAuth exEnv (exRequest ''gplus'' [(''state'', ''s1'')])
          (exWorld [''gplus'' \<mapsto> VBytes ''GZs1:tok''] None))
     = Inr \<lparr>goth_Email = ''a@x.org'', goth_UserID = ''tok''\<rparr> \<and>
   calls (snd (completeUserAuth exEnv (exRequest ''gplus'' [(''state'', ''s1'')])
          (exWorld [''gplus'' \<mapsto> VBytes ''GZs1:tok''] None)))
     = [SessionGetBytes ''gplus'', ProviderFetchUser, SessionRemove ''gplus''] \<and>
   fst (getFromSession exEnv ''gplus''
          (snd (logout (exRequest ''gplus'' [(''state'', ''s1'')])
                  (exWorld [''gplus'' \<mapsto> VBytes ''GZs1:tok''] None))))
     = Inl ''could not find a matching session for this request''"
  by (simp add: completeUserAuth_def completeUserAuth_body_def flow_defs ex_defs)

text \<open>
  C3, as the code has it. After every return of \<open>completeUserAuth\<close>, the successful one
  included, the session no longer holds an entry for the provider, as long as the session
  store does not fail: the deferred \<open>logout\<close> runs on every path.
\<close>

theorem entry_removed_on_every_return:
  "getProviderName req = Inr name \<Longrightarrow> loadErr (session w) = None \<Longrightarrow>
   saveErr (session w) = None \<Longrightarrow>
   data (session (snd (completeUserAuth E req w))) name = None"
proof -
  assume n: "getProviderName req = Inr name"
    and le: "loadErr (session w) = None" and se: "saveErr (session w) = None"
  obtain r wb where b: "completeUserAuth_body E req w = (r, wb)"
    by (cases "completeUserAuth_body E req w")
  obtain r2 w2 where l: "logout req wb = (r2, w2)" by (cases "logout req wb")
  from body_frame[OF b] le se have "loadErr (session wb) = None" "saveErr (session wb) = None"
    by (simp_all add: same_reply_def)
  from logout_clears[OF l n this] b l show ?thesis
    by (simp add: completeUserAuth_def)
qed

text \<open>The property at a concrete run.\<close>

theorem entry_removed_on_every_return_witness:
  "getProviderName (exRequest ''gplus'' [(''state'', ''s1'')]) = Inr ''gplus'' \<and>
   loadErr (session (exWorld [''gplus'' \<mapsto> VBytes ''GZs1:tok''] None)) = None \<and>
   saveErr (session (exWorld [''gplus'' \<mapsto> VBytes ''GZs1:tok''] None)) = None \<and>
   fst (completeUserAuth exEnv (exRequest ''gplus'' [(''state'', ''s1'')])
          (exWorld [''gplus'' \<mapsto> VBytes ''GZs1:tok''] None))
     = Inr \<lparr>goth_Email = ''a@x.org'', goth_UserID = ''tok''\<rparr> \<and>
   data (session (snd (completeUserAuth exEnv (exRequest ''gplus'' [(''state'', ''s1'')])
          (exWorld [''gplus'' \<mapsto> VBytes ''GZs1:tok''] None)))) ''gplus'' = None"
proof -
  let ?req = "exRequest ''gplus'' [(''state'', ''s1'')]"
  let ?w = "exWorld [''gplus'' \<mapsto> VBytes ''GZs1:tok''] None"
  have a: "getProviderName ?req = Inr ''gplus''"
    by (simp add: getProviderName_def chi_URLParam_def exRequest_def)
  have b: "loadErr (session ?w) = None" "saveErr (session ?w) = None"
    by (simp_all add: ex_defs)
  have c: "fst (completeUserAuth exEnv ?req ?w) = Inr \<lparr>goth_Email = ''a@x.org'', goth_UserID = ''tok''\<rparr>"
    by (simp add: completeUserAuth_def completeUserAuth_body_def flow_defs ex_defs)
  from entry_removed_on_every_return [OF a b, of exEnv] a b c show ?thesis by simp
qed

text \<open>
  With a store that cannot save, the removal fails, the deferred \<open>logout\<close> drops the
  error, and the call returns the user while the entry is still there.
\<close>

theorem entry_survives_counterexample:
  "fst (completeUserAuth exEnv (exRequest ''gplus'' [(''state'', ''s1'')])
          (exWorld [''gplus'' \<mapsto> VBytes ''GZs1:tok''] (Some ''store is down'')))
     = Inr \<lparr>goth_Email = ''a@x.org'', goth_UserID = ''tok''\<rparr> \<and>
   data (session (snd (completeUserAuth exEnv (exRequest ''gplus'' [(''state'', ''s1'')])
          (exWorld [''gplus'' \<mapsto> VBytes ''GZs1:tok''] (Some ''store is down''))))) ''gplus''
     = Some (VBytes ''GZs1:tok'')"
  by (simp add: completeUserAuth_def completeUserAuth_body_def flow_defs ex_defs)

section \<open>Refreshing the token\<close>

lemma storeInSession_eq:
  assumes "loadErr (session w) = None"
  shows "\<exists>w'. storeInSession E key v w =
           ((case gzip_compress E v of Inl e \<Rightarrow> Some e | Inr b \<Rightarrow> saveErr (session w)), w') \<and>
         calls w' = calls w @
           (case gzip_compress E v of Inl _ \<Rightarrow> [] | Inr b \<Rightarrow> [SessionPutBytes key b])"
proof -
  obtain r w' where s: "storeInSession E key v w = (r, w')"
    by (cases "storeInSession E key v w")
  from storeInSession_result[of E key v w] s assms
  have "r = (case gzip_compress E v of Inl e \<Rightarrow> Some e | Inr b \<Rightarrow> saveErr (session w))"
    by (simp split: sum.splits)
  with storeInSession_frame[OF s] s show ?thesis by simp
qed

text \<open>
  C10. When the first profile fetch fails, \<open>completeUserAuth\<close> calls \<open>Authorize\<close> once,
  with the query parameters of the callback; if that succeeds it stores the refreshed session
  once; if that succeeds it fetches the profile once more, and its answer is the result. A
  failure of any of these steps is the result, and nothing is retried after it. The calls
  made are exactly these, followed by the deferred removal.
\<close>

theorem refresh_and_retry_once:
  assumes "getProviderName req = Inr name" and "goth_GetProvider E name = Inr p"
      and "getFromSession E name w = (Inr v, w1)" and "UnmarshalSession p v = Inr sess"
      and "validateState E p req sess = None" and "FetchUser p sess = Inl e0"
  shows "fst (completeUserAuth E req w) =
           (case Authorize p sess (Query req) of
              Inl e \<Rightarrow> Inl e
            | Inr sess' \<Rightarrow>
               (case gzip_compress E (Marshal p sess') of
                  Inl e \<Rightarrow> Inl e
                | Inr b \<Rightarrow>
                   (case saveErr (session w) of
                      Some e \<Rightarrow> Inl e
                    | None \<Rightarrow> FetchUser p sess'))) \<and>
         calls (snd (completeUserAuth E req w)) =
           calls w @ [SessionGetBytes name, ProviderFetchUser, ProviderAuthorize (Query req)] @
           (case Authorize p sess (Query req) of
              Inl e \<Rightarrow> []
            | Inr sess' \<Rightarrow>
               (case gzip_compress E (Marshal p sess') of
                  Inl e \<Rightarrow> []
                | Inr b \<Rightarrow>
                   SessionPutBytes name b #
                   (case saveErr (session w) of Some e \<Rightarrow> [] | None \<Rightarrow> [ProviderFetchUser]))) @
           [SessionRemove name]"
proof -
  let ?res = "case Authorize p sess (Query req) of
              Inl e \<Rightarrow> Inl e
            | Inr sess' \<Rightarrow>
               (case gzip_compress E (Marshal p sess') of
                  Inl e \<Rightarrow> Inl e
                | Inr b \<Rightarrow>
                   (case saveErr (session w) of
                      Some e \<Rightarrow> Inl e
                    | None \<Rightarrow> FetchUser p sess'))"
  let ?mid = "case Authorize p sess (Query req) of
              Inl e \<Rightarrow> []
            | Inr sess' \<Rightarrow>
               (case gzip_compress E (Marshal p sess') of
                  Inl e \<Rightarrow> []
                | Inr b \<Rightarrow>
                   SessionPutBytes name b #
                   (case saveErr (session w) of Some e \<Rightarrow> [] | None \<Rightarrow> [ProviderFetchUser]))"
  let ?w3 = "call (ProviderAuthorize (Query req)) (call ProviderFetchUser (call (SessionGetBytes name) w))"
  from getFromSession_Inr[OF assms(3)]
  have w1: "w1 = call (SessionGetBytes name) w" and le: "loadErr (session w) = None"
    by simp_all
  have le3: "loadErr (session ?w3) = None" and se3: "saveErr (session ?w3) = saveErr (session w)"
    and c3: "calls ?w3 = calls w @ [SessionGetBytes name, ProviderFetchUser, ProviderAuthorize (Query req)]"
    using le by (simp_all add: call_simps)
  have body: "\<exists>wb. completeUserAuth_body E req w = (?res, wb) \<and>
      calls wb = calls w @ [SessionGetBytes name, ProviderFetchUser, ProviderAuthorize (Query req)] @ ?mid"
  proof (cases "Authorize p sess (Query req)")
    case (Inl e)
    with assms w1 c3 show ?thesis
      by (simp add: completeUserAuth_body_def provider_call_simps)
  next
    case (Inr sess')
    from storeInSession_eq[OF le3, of E name "Marshal p sess'"] obtain w4 where
      st: "storeInSession E name (Marshal p sess') ?w3 =
             ((case gzip_compress E (Marshal p sess') of Inl e \<Rightarrow> Some e
               | Inr b \<Rightarrow> saveErr (session ?w3)), w4)"
      and c4: "calls w4 = calls ?w3 @
           (case gzip_compress E (Marshal p sess') of Inl _ \<Rightarrow> []
            | Inr b \<Rightarrow> [SessionPutBytes name b])"
      by blast
    from assms w1 Inr st c4 c3 se3 show ?thesis
      by (auto simp: completeUserAuth_body_def provider_call_simps call_simps
          split: sum.splits option.splits)
  qed
  then obtain wb where b: "completeUserAuth_body E req w = (?res, wb)"
    and cb: "calls wb = calls w @ [SessionGetBytes name, ProviderFetchUser, ProviderAuthorize (Query req)] @ ?mid"
    by blast
  obtain r2 w2 where l: "logout req wb = (r2, w2)" by (cases "logout req wb")
  from logout_calls[OF l assms(1)] cb b l show ?thesis
    by (simp add: completeUserAuth_def)
qed

text \<open>The property at a concrete run.\<close>

theorem refresh_and_retry_once_witness:
  "getProviderName (exRequest ''gplus'' [(''state'', ''s1''), (''code'', ''c9'')]) = Inr ''gplus'' \<and>
   goth_GetProvider exEnv ''gplus'' = Inr exProvider \<and>
   fst (getFromSession exEnv ''gplus'' (exWorld [''gplus'' \<mapsto> VBytes ''GZs1:''] None))
     = Inr ''s1:'' \<and>
   UnmarshalSession exProvider ''s1:'' = Inr (''s1'', []) \<and>
   validateState exEnv exProvider (exRequest ''gplus'' [(''state'', ''s1''), (''code'', ''c9'')])
     (''s1'', []) = None \<and>
   FetchUser exProvider (''s1'', []) = Inl ''no token'' \<and>
   fst (completeUserAuth exEnv (exRequest ''gplus'' [(''state'', ''s1''), (''code'', ''c9'')])
          (exWorld [''gplus'' \<mapsto> VBytes ''GZs1:''] None))
     = Inr \<lparr>goth_Email = ''a@x.org'', goth_UserID = ''c9''\<rparr> \<and>
   calls (snd (completeUserAuth exEnv (exRequest ''gplus'' [(''state'', ''s1''), (''code'', ''c9'')])
          (exWorld [''gplus'' \<mapsto> VBytes ''GZs1:''] None)))
     = [SessionGetBytes ''gplus'', ProviderFetchUser,
        ProviderAuthorize [(''state'', ''s1''), (''code'', ''c9'')],
        SessionPutBytes ''gplus'' ''GZs1:c9'', ProviderFetchUser, SessionRemove ''gplus'']"
proof -
  let ?req = "exRequest ''gplus'' [(''state'', ''s1''), (''code'', ''c9'')]"
  let ?w = "exWorld [''gplus'' \<mapsto> VBytes ''GZs1:''] None"
  have a: "getProviderName ?req = Inr ''gplus''"
    by (simp add: getProviderName_def chi_URLParam_def exRequest_def)
  have b: "goth_GetProvider exEnv ''gplus'' = Inr exProvider"
    by (simp add: goth_GetProvider_def exEnv_def)
  have c: "getFromSession exEnv ''gplus'' ?w = (Inr ''s1:'', call (SessionGetBytes ''gplus'') ?w)"
    by (simp add: flow_defs ex_defs)
  have d: "UnmarshalSession exProvider ''s1:'' = Inr (''s1'', [])"
    by (simp add: exProvider_def)
  have e: "validateState exEnv exProvider ?req (''s1'', []) = None"
    by (simp add: validateState_def Values_Get_def ex_defs)
  have f: "FetchUser exProvider (''s1'', []) = Inl ''no token''"
    by (simp add: exProvider_def)
  have g: "Authorize exProvider (''s1'', []) (Query ?req) = Inr (''s1'', ''c9'')"
    "gzip_compress exEnv (Marshal exProvider (''s1'', ''c9'')) = Inr ''GZs1:c9''"
    "FetchUser exProvider (''s1'', ''c9'') = Inr \<lparr>goth_Email = ''a@x.org'', goth_UserID = ''c9''\<rparr>"
    "saveErr (session ?w) = None" "calls ?w = []"
    by (simp_all add: ex_defs)
  have h: "Query ?req = [(''state'', ''s1''), (''code'', ''c9'')]"
    by (simp add: exRequest_def)
  from refresh_and_retry_once [OF a b c d e f] a b c d e f g h show ?thesis by simp
qed

section \<open>The routes\<close>

lemma getAuthURL_frame:
  assumes "getAuthURL E req w = (r, w')"
  shows "same_reply w w' \<and> logged w' = logged w"
proof -
  have rp: "same_reply w (snd (setState E req w)) \<and> logged (snd (setState E req w)) = logged w"
    by (simp add: setState_def Let_def same_reply_def)
  obtain st w1 where s: "setState E req w = (st, w1)" by (cases "setState E req w")
  with rp have w1: "same_reply w w1" "logged w1 = logged w" by simp_all
  from assms s w1 show ?thesis
    by (auto simp: getAuthURL_def provider_call_simps same_reply_def call_simps
        split: sum.splits prod.splits option.splits
        dest!: storeInSession_frame)
qed

lemma completeUserAuth_frame:
  assumes "completeUserAuth E req w = (r, w')"
  shows "same_reply w w'"
proof -
  obtain rb wb where b: "completeUserAuth_body E req w = (rb, wb)"
    by (cases "completeUserAuth_body E req w")
  obtain r2 w2 where l: "logout req wb = (r2, w2)" by (cases "logout req wb")
  from assms b l have "w' = w2" by (simp add: completeUserAuth_def)
  with body_frame[OF b] logout_frame[OF l] show ?thesis
    by (auto intro: same_reply_trans)
qed

text \<open>
  C8. The logout route answers with a temporary redirect to \<open>SuccessPage\<close> and writes no
  body, whatever \<open>logout\<close> returned.
\<close>

theorem logout_route_always_redirects:
  "Status (response w) = None \<Longrightarrow>
   Status (response (logoutRoute t req w)) = Some StatusTemporaryRedirect \<and>
   Header (response (logoutRoute t req w)) ''Location'' = [SuccessPage t] \<and>
   Body (response (logoutRoute t req w)) = Body (response w)"
proof -
  assume s: "Status (response w) = None"
  obtain r w1 where l: "logout req w = (r, w1)" by (cases "logout req w")
  from logout_frame[OF l] s have "Status (response w1) = None" "Body (response w1) = Body (response w)"
    by (simp_all add: same_reply_def)
  with l show ?thesis
    by (simp add: logoutRoute_def redirect_def WriteHeader_def Header_Set_def)
qed

text \<open>The property at a concrete run.\<close>

theorem logout_route_always_redirects_witness:
  "Status (response (exWorld [''gplus'' \<mapsto> VBytes ''GZs1:tok''] (Some ''store is down''))) = None \<and>
   fst (logout (exRequest ''gplus'' [])
          (exWorld [''gplus'' \<mapsto> VBytes ''GZs1:tok''] (Some ''store is down'')))
     = Some ''Could not delete user session '' \<and>
   Status (response (logoutRoute exAuth (exRequest ''gplus'' [])
          (exWorld [''gplus'' \<mapsto> VBytes ''GZs1:tok''] (Some ''store is down'')))) = Some 307 \<and>
   Header (response (logoutRoute exAuth (exRequest ''gplus'' [])
          (exWorld [''gplus'' \<mapsto> VBytes ''GZs1:tok''] (Some ''store is down'')))) ''Location''
     = [''/'']"
proof -
  let ?w = "exWorld [''gplus'' \<mapsto> VBytes ''GZs1:tok''] (Some ''store is down'')"
  have a: "Status (response ?w) = None"
    by (simp add: ex_defs)
  have b: "fst (logout (exRequest ''gplus'' []) ?w) = Some ''Could not delete user session ''"
    by (simp add: flow_defs ex_defs)
  from logout_route_always_redirects [OF a, of exAuth "exRequest ''gplus'' []"] a b
  show ?thesis by (simp add: StatusTemporaryRedirect_def exAuth_def)
qed

text \<open>
  C9, as the code has it. On the callback route an error of \<open>completeUserAuth\<close> is logged
  and the handler returns without a status line, a \<open>Location\<close> header or a body. On the
  login route the same error is not logged by the handler and starts a fresh flow instead;
  an error of that flow is answered with status 400 and the error text as the body, and is
  not logged.
\<close>

theorem flow_errors_by_route:
  "(completeUserAuth E req w = (Inl e, w1) \<longrightarrow>
      logged (callbackRoute t E req w)
        = logged w1 @ [''Can't complete user's authentication, '' @ e] \<and>
      Status (response (callbackRoute t E req w)) = Status (response w) \<and>
      Body (response (callbackRoute t E req w)) = Body (response w) \<and>
      Header (response (callbackRoute t E req w)) ''Location'' = Header (response w) ''Location'' \<and>
      loginRoute t E req w = beginAuthHandler E req w1) \<and>
   (getAuthURL E req w = (Inl e, w1) \<and> Status (response w) = None \<longrightarrow>
      Status (response (beginAuthHandler E req w)) = Some StatusBadRequest \<and>
      Body (response (beginAuthHandler E req w)) = Body (response w) @ e @ [CHR 0x0A] \<and>
      logged (beginAuthHandler E req w) = logged w)"
proof -
  have "logged (callbackRoute t E req w)
        = logged w1 @ [''Can't complete user's authentication, '' @ e] \<and>
      Status (response (callbackRoute t E req w)) = Status (response w) \<and>
      Body (response (callbackRoute t E req w)) = Body (response w) \<and>
      Header (response (callbackRoute t E req w)) ''Location'' = Header (response w) ''Location'' \<and>
      loginRoute t E req w = beginAuthHandler E req w1"
    if c: "completeUserAuth E req w = (Inl e, w1)"
    using completeUserAuth_frame[OF c] c
    by (simp add: callbackRoute_def loginRoute_def log_Print_simps same_reply_def)
  moreover have "Status (response (beginAuthHandler E req w)) = Some StatusBadRequest \<and>
      Body (response (beginAuthHandler E req w)) = Body (response w) @ e @ [CHR 0x0A] \<and>
      logged (beginAuthHandler E req w) = logged w"
    if g: "getAuthURL E req w = (Inl e, w1)" and s: "Status (response w) = None"
    using getAuthURL_frame[OF g] g s
    by (simp add: beginAuthHandler_def same_reply_def Write_def WriteHeader_def Let_def)
  ultimately show ?thesis by blast
qed

text \<open>The property at a concrete run.\<close>

theorem flow_errors_by_route_witness:
  "fst (completeUserAuth exEnv (exRequest ''gplus'' [(''state'', ''s2'')])
         (exWorld [''gplus'' \<mapsto> VBytes ''GZs1:tok''] None)) = Inl ''state token mismatch'' \<and>
   logged (callbackRoute exAuth exEnv (exRequest ''gplus'' [(''state'', ''s2'')])
         (exWorld [''gplus'' \<mapsto> VBytes ''GZs1:tok''] None))
     = [''Can't complete user's authentication, state token mismatch''] \<and>
   Status (response (callbackRoute exAuth exEnv (exRequest ''gplus'' [(''state'', ''s2'')])
         (exWorld [''gplus'' \<mapsto> VBytes ''GZs1:tok''] None))) = None \<and>
   Body (response (callbackRoute exAuth exEnv (exRequest ''gplus'' [(''state'', ''s2'')])
         (exWorld [''gplus'' \<mapsto> VBytes ''GZs1:tok''] None))) = [] \<and>
   fst (getAuthURL exEnv (exRequest ''fb'' []) (exWorld Map.empty None))
     = Inl ''no provider for fb exists'' \<and>
   Status (response (beginAuthHandler exEnv (exRequest ''fb'' []) (exWorld Map.empty None)))
     = Some 400 \<and>
   Body (response (beginAuthHandler exEnv (exRequest ''fb'' []) (exWorld Map.empty None)))
     = ''no provider for fb exists'' @ [CHR 0x0A]"
proof -
  let ?req = "exRequest ''gplus'' [(''state'', ''s2'')]"
  let ?w = "exWorld [''gplus'' \<mapsto> VBytes ''GZs1:tok''] None"
  let ?fb = "exRequest ''fb'' []"
  let ?emp = "exWorld Map.empty None"
  have a: "fst (completeUserAuth exEnv ?req ?w) = Inl ''state token mismatch''"
    and a2: "logged (snd (completeUserAuth exEnv ?req ?w)) = []"
    by (simp_all add: completeUserAuth_def completeUserAuth_body_def flow_defs ex_defs)
  from a have a': "completeUserAuth exEnv ?req ?w
      = (Inl ''state token mismatch'', snd (completeUserAuth exEnv ?req ?w))"
    by (metis prod.collapse)
  have b: "fst (getAuthURL exEnv ?fb ?emp) = Inl ''no provider for fb exists''"
    by (simp add: getAuthURL_def flow_defs ex_defs)
  then have b': "getAuthURL exEnv ?fb ?emp
      = (Inl ''no provider for fb exists'', snd (getAuthURL exEnv ?fb ?emp))"
    by (metis prod.collapse)
  have c: "Status (response ?w) = None" "Body (response ?w) = []"
    "Status (response ?emp) = None" "Body (response ?emp) = []"
    by (simp_all add: ex_defs)
  from flow_errors_by_route [of exEnv ?req ?w "''state token mismatch''"
      "snd (completeUserAuth exEnv ?req ?w)" exAuth] a'
  have r1: "logged (callbackRoute exAuth exEnv ?req ?w)
        = logged (snd (completeUserAuth exEnv ?req ?w))
          @ [''Can't complete user's authentication, '' @ ''state token mismatch''] \<and>
      Status (response (callbackRoute exAuth exEnv ?req ?w)) = Status (response ?w) \<and>
      Body (response (callbackRoute exAuth exEnv ?req ?w)) = Body (response ?w)"
    by blast
  from flow_errors_by_route [of exEnv ?fb ?emp "''no provider for fb exists''"
      "snd (getAuthURL exEnv ?fb ?emp)" exAuth] b' c(3)
  have r2: "Status (response (beginAuthHandler exEnv ?fb ?emp)) = Some StatusBadRequest \<and>
      Body (response (beginAuthHandler exEnv ?fb ?emp))
        = Body (response ?emp) @ ''no provider for fb exists'' @ [CHR 0x0A]"
    by blast
  from r1 r2 a a2 b c show ?thesis by (simp add: StatusBadRequest_def)
qed

text \<open>
  A login request for a provider that is not registered: the reply is status 400 with the
  error as its body, and nothing is logged.
\<close>

theorem login_error_counterexample:
  "Status (response (loginRoute exAuth exEnv (exRequest ''fb'' []) (exWorld Map.empty None)))
     = Some 400 \<and>
   Body (response (loginRoute exAuth exEnv (exRequest ''fb'' []) (exWorld Map.empty None)))
     = ''no provider for fb exists'' @ [CHR 0x0A] \<and>
   logged (loginRoute exAuth exEnv (exRequest ''fb'' []) (exWorld Map.empty None)) = []"
  by (simp add: loginRoute_def beginAuthHandler_def getAuthURL_def completeUserAuth_def
      completeUserAuth_body_def flow_defs ex_defs Write_def WriteHeader_def StatusBadRequest_def)

end
